theory Spec2Isabelle
  imports Complex_Main
begin

section \<open>Data model of \<open>main.py\<close>\<close>

text \<open>
  A Python \<open>str\<close> is modelled as a \<open>string\<close>: the list of its code points, for the code
  points below 256. A \<open>dict\<close> with string keys and string values is an association list
  in the order of the literal that builds it; \<open>d[k]\<close> is \<open>map_of d k\<close>, and a missing key
  raises \<open>KeyError\<close>.
\<close>

type_synonym py_dict = "(string \<times> string) list"

text \<open>The three structured-output schemas (pydantic models).\<close>

datatype IllegalAndIrrelevant =
  IllegalAndIrrelevant (is_request_irrelevant_illegal: bool) (reasoning: string)

datatype ControlBookingCriteria =
  ControlBookingCriteria (is_response_violates: bool) (reasoning: string)

datatype MessageOutput = MessageOutput (response: string)

text \<open>
  The dataclass \<open>UserInfo\<close>. The float \<open>budget\<close> is only stored and handed on, never
  computed with; it is kept as the number its literal denotes.
\<close>

record UserInfo =
  name :: string
  age :: int
  departure_city :: string
  budget :: real
  travel_history :: "string list"

text \<open>
  Exceptions. The two tripwire classes are the ones \<open>run_travel_agent\<close> names in its
  \<open>except\<close> clauses; \<open>KeyError\<close> is raised by a dictionary read; \<open>ProviderError\<close> stands
  for every failure of a call to the remote model.
\<close>

datatype provider_failure =
  MalformedReply | NetworkFailure | AuthenticationFailure | RateLimit

datatype exn =
  InputGuardrailTripwireTriggered
| OutputGuardrailTripwireTriggered
| KeyError string
| ProviderError provider_failure

text \<open>
  The state a turn runs in: the list object \<open>st.session_state.messages\<close>, which the
  parameter \<open>chat_history\<close> of \<open>run_travel_agent\<close> refers to (Python passes the list by
  reference), and the log of the calls made to the remote model, each with the agent's
  name, the input text and the context object it was given.
\<close>

datatype model_call =
  ModelCall (call_agent: string) (call_input: string) (call_context: UserInfo)

record session =
  messages :: "py_dict list"
  calls :: "model_call list"

type_synonym 'a run = "session \<Rightarrow> (exn + 'a) \<times> session"

datatype 'i GuardrailFunctionOutput =
  GuardrailFunctionOutput (output_info: 'i) (tripwire_triggered: bool)

datatype 'o RunResult = RunResult (final_output: 'o)

text \<open>
  An \<open>Agent\<close> as \<open>run_travel_agent\<close> configures it. The instruction text is a prompt for
  the remote model and has no part in the control flow; it is left out. The guardrail
  functions are stored without their unused \<open>agent\<close> parameter, and their first
  parameter is the context object itself, the \<open>ctx.context\<close> of the source.
\<close>

record ('gi, 'go, 'o) Agent =
  agent_name :: string
  model :: string
  input_guardrails :: "(UserInfo \<Rightarrow> string \<Rightarrow> 'gi GuardrailFunctionOutput run) list"
  output_guardrails :: "(UserInfo \<Rightarrow> 'o \<Rightarrow> 'go GuardrailFunctionOutput run) list"

text \<open>
  What the remote model answers is not decided by the program: it is a parameter, one
  reply function per agent, already decoded to the agent's \<open>output_type\<close> (a reply that
  does not fit the schema is the failure \<open>MalformedReply\<close>).
\<close>

record provider =
  input_guardrail_reply :: "string \<Rightarrow> UserInfo \<Rightarrow> provider_failure + IllegalAndIrrelevant"
  output_guardrail_reply :: "string \<Rightarrow> UserInfo \<Rightarrow> provider_failure + ControlBookingCriteria"
  travel_agent_reply :: "string \<Rightarrow> UserInfo \<Rightarrow> provider_failure + MessageOutput"

section \<open>Python string operations\<close>

text \<open>
  \<open>str.strip()\<close> without argument removes leading and trailing whitespace, which for
  the code points below 256 are the following twelve.
\<close>

definition py_isspace :: "char \<Rightarrow> bool" where
  "py_isspace c \<longleftrightarrow>
     c \<in> {CHR 0x09, CHR 0x0A, CHR 0x0B, CHR 0x0C, CHR 0x0D,
          CHR 0x1C, CHR 0x1D, CHR 0x1E, CHR 0x1F, CHR 0x20, CHR 0x85, CHR 0xA0}"

definition py_lstrip :: "string \<Rightarrow> string" where
  "py_lstrip s = dropWhile py_isspace s"

definition py_rstrip :: "string \<Rightarrow> string" where
  "py_rstrip s = rev (dropWhile py_isspace (rev s))"

definition py_strip :: "string \<Rightarrow> string" where
  "py_strip s = py_lstrip (py_rstrip s)"

section \<open>The agents runtime\<close>

text \<open>
  Modelled from the spec: \<open>Runner.run\<close> belongs to the external agents library and is not
  part of the repository. Its sequencing follows the turn state machine of the
  specification: the input guardrails run on the input first, and a triggered tripwire
  raises \<open>InputGuardrailTripwireTriggered\<close> without any call to the agent's model; else
  the agent's model is called once; then the output guardrails run on its final output,
  and a triggered tripwire raises \<open>OutputGuardrailTripwireTriggered\<close>; else the result is
  returned. Any other failure propagates. Every call to the remote model is logged.
  The library's own default differs in the scheduling of the input guardrails; that is
  \<open>Runner_run_parallel\<close> below.
\<close>

fun run_input_guardrails ::
  "(UserInfo \<Rightarrow> string \<Rightarrow> 'gi GuardrailFunctionOutput run) list \<Rightarrow> UserInfo \<Rightarrow> string \<Rightarrow> unit run"
where
  "run_input_guardrails [] ctx inp s = (Inr (), s)"
| "run_input_guardrails (g # gs) ctx inp s =
     (case g ctx inp s of
        (Inl e, s') \<Rightarrow> (Inl e, s')
      | (Inr out, s') \<Rightarrow>
          if tripwire_triggered out then (Inl InputGuardrailTripwireTriggered, s')
          else run_input_guardrails gs ctx inp s')"

fun run_output_guardrails ::
  "(UserInfo \<Rightarrow> 'o \<Rightarrow> 'go GuardrailFunctionOutput run) list \<Rightarrow> UserInfo \<Rightarrow> 'o \<Rightarrow> unit run"
where
  "run_output_guardrails [] ctx outp s = (Inr (), s)"
| "run_output_guardrails (g # gs) ctx outp s =
     (case g ctx outp s of
        (Inl e, s') \<Rightarrow> (Inl e, s')
      | (Inr out, s') \<Rightarrow>
          if tripwire_triggered out then (Inl OutputGuardrailTripwireTriggered, s')
          else run_output_guardrails gs ctx outp s')"

definition Runner_run ::
  "(string \<Rightarrow> UserInfo \<Rightarrow> provider_failure + 'o) \<Rightarrow> ('gi, 'go, 'o) Agent \<Rightarrow> string \<Rightarrow> UserInfo
     \<Rightarrow> 'o RunResult run"
where
  "Runner_run reply starting_agent inp ctx s =
     (case run_input_guardrails (input_guardrails starting_agent) ctx inp s of
        (Inl e, s1) \<Rightarrow> (Inl e, s1)
      | (Inr _, s1) \<Rightarrow>
          (let s2 = s1\<lparr>calls := calls s1 @ [ModelCall (agent_name starting_agent) inp ctx]\<rparr>
           in case reply inp ctx of
                Inl f \<Rightarrow> (Inl (ProviderError f), s2)
              | Inr outp \<Rightarrow>
                  (case run_output_guardrails (output_guardrails starting_agent) ctx outp s2 of
                     (Inl e, s3) \<Rightarrow> (Inl e, s3)
                   | (Inr _, s3) \<Rightarrow> (Inr (RunResult outp), s3))))"

text \<open>
  The first turn as the agents library schedules it by default, which it documents for
  input guardrails: they run in parallel with the agent's own request. This is not in the
  repository either, and it is not the sequential order of the specification. Both the
  guardrails and the agent's request are started; the output guardrails run only when
  neither has raised. Two things depend on timing and are parameters, a \<open>schedule\<close>:
  which of the two requests reaches the provider first, and, when the guardrails and the
  agent's request both raise, which of the two exceptions the caller sees.
\<close>

record schedule =
  agent_request_first :: bool
  agent_failure_first :: bool

definition Runner_run_parallel ::
  "schedule \<Rightarrow> (string \<Rightarrow> UserInfo \<Rightarrow> provider_failure + 'o) \<Rightarrow> ('gi, 'go, 'o) Agent \<Rightarrow> string
     \<Rightarrow> UserInfo \<Rightarrow> 'o RunResult run"
where
  "Runner_run_parallel sched reply starting_agent inp ctx s =
     (let request = ModelCall (agent_name starting_agent) inp ctx;
          s0 = (if agent_request_first sched then s\<lparr>calls := calls s @ [request]\<rparr> else s)
      in case run_input_guardrails (input_guardrails starting_agent) ctx inp s0 of
           (g, s1) \<Rightarrow>
             (let s2 = (if agent_request_first sched then s1
                        else s1\<lparr>calls := calls s1 @ [request]\<rparr>)
              in case g of
                   Inl e \<Rightarrow>
                     (case reply inp ctx of
                        Inl f \<Rightarrow>
                          (Inl (if agent_failure_first sched then ProviderError f else e), s2)
                      | Inr _ \<Rightarrow> (Inl e, s2))
                 | Inr _ \<Rightarrow>
                     (case reply inp ctx of
                        Inl f \<Rightarrow> (Inl (ProviderError f), s2)
                      | Inr outp \<Rightarrow>
                          (case run_output_guardrails (output_guardrails starting_agent)
                                  ctx outp s2 of
                             (Inl e, s3) \<Rightarrow> (Inl e, s3)
                           | (Inr _, s3) \<Rightarrow> (Inr (RunResult outp), s3)))))"

section \<open>\<open>run_travel_agent\<close>\<close>

definition illegal_and_irrelevant_input_guardrail :: "(unit, unit, IllegalAndIrrelevant) Agent" where
  "illegal_and_irrelevant_input_guardrail =
     \<lparr>agent_name = ''input guardrail agent'', model = ''gemini-2.0-flash'',
      input_guardrails = [], output_guardrails = []\<rparr>"

definition control_booking_output_guardrail :: "(unit, unit, ControlBookingCriteria) Agent" where
  "control_booking_output_guardrail =
     \<lparr>agent_name = ''output guardrail agent'', model = ''gemini-2.0-flash'',
      input_guardrails = [], output_guardrails = []\<rparr>"

definition illegal_irrelevant ::
  "provider \<Rightarrow> UserInfo \<Rightarrow> string \<Rightarrow> IllegalAndIrrelevant GuardrailFunctionOutput run"
where
  "illegal_irrelevant p ctx user_input s =
     (case Runner_run (input_guardrail_reply p) illegal_and_irrelevant_input_guardrail
             user_input ctx s of
        (Inl e, s') \<Rightarrow> (Inl e, s')
      | (Inr result, s') \<Rightarrow>
          (Inr (GuardrailFunctionOutput (final_output result)
                  (is_request_irrelevant_illegal (final_output result))), s'))"

definition check_booking ::
  "provider \<Rightarrow> UserInfo \<Rightarrow> MessageOutput \<Rightarrow> ControlBookingCriteria GuardrailFunctionOutput run"
where
  "check_booking p ctx outp s =
     (case Runner_run (output_guardrail_reply p) control_booking_output_guardrail
             (response outp) ctx s of
        (Inl e, s') \<Rightarrow> (Inl e, s')
      | (Inr result, s') \<Rightarrow>
          (Inr (GuardrailFunctionOutput (final_output result)
                  (is_response_violates (final_output result))), s'))"

definition Travel_Booking_Assistant_Agent ::
  "provider \<Rightarrow> (IllegalAndIrrelevant, ControlBookingCriteria, MessageOutput) Agent"
where
  "Travel_Booking_Assistant_Agent p =
     \<lparr>agent_name = ''travel booking agent'', model = ''gemini-2.5-flash'',
      input_guardrails = [illegal_irrelevant p], output_guardrails = [check_booking p]\<rparr>"

definition user_info :: UserInfo where
  "user_info =
     \<lparr>name = ''Mark Willson'', age = 45, departure_city = ''Tokyo'', budget = 180.4,
      travel_history = [''China'', ''UAE'', ''Iran'', ''India'']\<rparr>"

text \<open>The loop that combines the conversation into one prompt; \<open>conversation\<close> is its accumulator.\<close>

fun combine_conversation :: "py_dict list \<Rightarrow> string \<Rightarrow> exn + string" where
  "combine_conversation [] conversation = Inr conversation"
| "combine_conversation (msg # rest) conversation =
     (case map_of msg ''role'' of
        None \<Rightarrow> Inl (KeyError ''role'')
      | Some r \<Rightarrow>
          (let role = (if r = ''user'' then ''User'' else ''Agent'')
           in case map_of msg ''content'' of
                None \<Rightarrow> Inl (KeyError ''content'')
              | Some c \<Rightarrow>
                  combine_conversation rest (conversation @ role @ '': '' @ c @ [CHR 0x0A])))"

definition run_travel_agent :: "provider \<Rightarrow> py_dict run" where
  "run_travel_agent p s =
     (case combine_conversation (messages s) [] of
        Inl e \<Rightarrow> (Inl e, s)
      | Inr conversation \<Rightarrow>
          (case Runner_run (travel_agent_reply p) (Travel_Booking_Assistant_Agent p)
                  (py_strip conversation) user_info s of
             (Inr result, s') \<Rightarrow>
               (Inr [(''status'', ''success''), (''response'', response (final_output result))], s')
           | (Inl InputGuardrailTripwireTriggered, s') \<Rightarrow>
               (Inr [(''status'', ''blocked_input''),
                     (''reason'', ''Illegal or irrelevant request.'')], s')
           | (Inl OutputGuardrailTripwireTriggered, s') \<Rightarrow>
               (Inr [(''status'', ''blocked_output''),
                     (''reason'', ''Blocked for safety (medical/legal advice or missing cost).'')], s')
           | (Inl e, s') \<Rightarrow> (Inl e, s')))"

text \<open>
  The same function with the runtime it calls as a parameter, so that a turn can be run
  under either scheduling; with \<open>Runner_run\<close> it is \<open>run_travel_agent\<close>.
\<close>

definition run_travel_agent_with ::
  "((string \<Rightarrow> UserInfo \<Rightarrow> provider_failure + MessageOutput)
      \<Rightarrow> (IllegalAndIrrelevant, ControlBookingCriteria, MessageOutput) Agent
      \<Rightarrow> string \<Rightarrow> UserInfo \<Rightarrow> MessageOutput RunResult run)
     \<Rightarrow> provider \<Rightarrow> py_dict run"
where
  "run_travel_agent_with run p s =
     (case combine_conversation (messages s) [] of
        Inl e \<Rightarrow> (Inl e, s)
      | Inr conversation \<Rightarrow>
          (case run (travel_agent_reply p) (Travel_Booking_Assistant_Agent p)
                  (py_strip conversation) user_info s of
             (Inr result, s') \<Rightarrow>
               (Inr [(''status'', ''success''), (''response'', response (final_output result))], s')
           | (Inl InputGuardrailTripwireTriggered, s') \<Rightarrow>
               (Inr [(''status'', ''blocked_input''),
                     (''reason'', ''Illegal or irrelevant request.'')], s')
           | (Inl OutputGuardrailTripwireTriggered, s') \<Rightarrow>
               (Inr [(''status'', ''blocked_output''),
                     (''reason'', ''Blocked for safety (medical/legal advice or missing cost).'')], s')
           | (Inl e, s') \<Rightarrow> (Inl e, s')))"

section \<open>The submit handler of the chat page\<close>

text \<open>
  The block under \<open>if submit and user_input.strip()\<close>. A raised exception leaves the
  state as it was at the raise: the user message stays appended.
\<close>

definition on_submit :: "provider \<Rightarrow> bool \<Rightarrow> string \<Rightarrow> unit run" where
  "on_submit p submit user_input s =
     (if submit \<and> py_strip user_input \<noteq> [] then
        (let s1 = s\<lparr>messages := messages s @ [[(''role'', ''user''), (''content'', user_input)]]\<rparr>
         in case run_travel_agent p s1 of
              (Inl e, s2) \<Rightarrow> (Inl e, s2)
            | (Inr result, s2) \<Rightarrow>
                (case map_of result ''status'' of
                   None \<Rightarrow> (Inl (KeyError ''status''), s2)
                 | Some status \<Rightarrow>
                     if status = ''success'' then
                       (case map_of result ''response'' of
                          None \<Rightarrow> (Inl (KeyError ''response''), s2)
                        | Some r \<Rightarrow>
                            (Inr (), s2\<lparr>messages := messages s2 @
                               [[(''role'', ''agent''), (''content'', r)]]\<rparr>))
                     else if status = ''blocked_input'' then
                       (case map_of result ''reason'' of
                          None \<Rightarrow> (Inl (KeyError ''reason''), s2)
                        | Some r \<Rightarrow>
                            (Inr (), s2\<lparr>messages := messages s2 @
                               [[(''role'', ''agent''), (''content'', ''Request Blocked: '' @ r)]]\<rparr>))
                     else if status = ''blocked_output'' then
                       (case map_of result ''reason'' of
                          None \<Rightarrow> (Inl (KeyError ''reason''), s2)
                        | Some r \<Rightarrow>
                            (Inr (), s2\<lparr>messages := messages s2 @
                               [[(''role'', ''agent''), (''content'', ''Response Blocked: '' @ r)]]\<rparr>))
                     else (Inr (), s2)))
      else (Inr (), s))"

section \<open>Vocabulary of the properties\<close>

text \<open>
  A well-formed turn is a pair of a role and a content; \<open>turn_dict\<close> is the dictionary
  the chat page stores for it, \<open>turn_line\<close> the line it contributes to the prompt, and
  \<open>join_lines\<close> joins lines with single newlines.
\<close>

definition turn_dict :: "string \<times> string \<Rightarrow> py_dict" where
  "turn_dict t = [(''role'', fst t), (''content'', snd t)]"

definition turn_line :: "string \<times> string \<Rightarrow> string" where
  "turn_line t = (if fst t = ''user'' then ''User'' else ''Agent'') @ '': '' @ snd t"

fun join_lines :: "string list \<Rightarrow> string" where
  "join_lines [] = []"
| "join_lines [l] = l"
| "join_lines (l # ls) = l @ [CHR 0x0A] @ join_lines ls"

text \<open>The three shapes of the dictionary \<open>run_travel_agent\<close> returns.\<close>

definition is_Success :: "py_dict \<Rightarrow> bool" where
  "is_Success d \<longleftrightarrow>
     map fst d = [''status'', ''response''] \<and> map_of d ''status'' = Some ''success''"

definition is_BlockedInput :: "py_dict \<Rightarrow> bool" where
  "is_BlockedInput d \<longleftrightarrow>
     map fst d = [''status'', ''reason''] \<and> map_of d ''status'' = Some ''blocked_input''"

definition is_BlockedOutput :: "py_dict \<Rightarrow> bool" where
  "is_BlockedOutput d \<longleftrightarrow>
     map fst d = [''status'', ''reason''] \<and> map_of d ''status'' = Some ''blocked_output''"

text \<open>
  Mocked providers, whose three replies are fixed whatever they are asked, and a session
  holding one user message. They are the concrete inputs of the examples below.
\<close>

definition mock_provider ::
  "provider_failure + IllegalAndIrrelevant \<Rightarrow> provider_failure + MessageOutput
     \<Rightarrow> provider_failure + ControlBookingCriteria \<Rightarrow> provider"
where
  "mock_provider pre_gate responder post_gate =
     \<lparr>input_guardrail_reply = (\<lambda>_ _. pre_gate),
      output_guardrail_reply = (\<lambda>_ _. post_gate),
      travel_agent_reply = (\<lambda>_ _. responder)\<rparr>"

definition tokyo_seoul :: string where
  "tokyo_seoul = ''Flights from Tokyo to Seoul start at $120.''"

definition mock_pass :: provider where
  "mock_pass = mock_provider (Inr (IllegalAndIrrelevant False ''travel request''))
     (Inr (MessageOutput tokyo_seoul)) (Inr (ControlBookingCriteria False ''cost shown''))"

definition mock_block_input :: provider where
  "mock_block_input = mock_provider (Inr (IllegalAndIrrelevant True ''off-topic''))
     (Inr (MessageOutput tokyo_seoul)) (Inr (ControlBookingCriteria False ''cost shown''))"

definition mock_block_output :: provider where
  "mock_block_output = mock_provider (Inr (IllegalAndIrrelevant False ''travel request''))
     (Inr (MessageOutput ''Booked.'')) (Inr (ControlBookingCriteria True ''no cost''))"


definition one_message :: session where
  "one_message = \<lparr>messages = [[(''role'', ''user''), (''content'', ''hi'')]], calls = []\<rparr>"

text \<open>Two more sessions: the three-turn transcript of the specification's example, and a
  single user message that ends in a space.\<close>

definition abc_transcript :: session where
  "abc_transcript =
     \<lparr>messages = [[(''role'', ''user''), (''content'', ''a'')],
                  [(''role'', ''agent''), (''content'', ''b'')],
                  [(''role'', ''user''), (''content'', ''c'')]],
      calls = []\<rparr>"

definition trailing_space :: session where
  "trailing_space = \<lparr>messages = [[(''role'', ''user''), (''content'', ''a '')]], calls = []\<rparr>"

text \<open>A text of blanks and a tabulator, and the session before the first message.\<close>

definition blank_input :: string where
  "blank_input = [CHR 0x20, CHR 0x09, CHR 0x20]"

definition empty_session :: session where
  "empty_session = \<lparr>messages = [], calls = []\<rparr>"

text \<open>
  Two schedules, and a provider whose input guardrail sets its flag while the travel
  booking agent's request is refused.
\<close>

definition guardrail_first :: schedule where
  "guardrail_first = \<lparr>agent_request_first = False, agent_failure_first = False\<rparr>"

definition agent_first :: schedule where
  "agent_first = \<lparr>agent_request_first = True, agent_failure_first = True\<rparr>"

definition mock_block_input_rate_limited :: provider where
  "mock_block_input_rate_limited = mock_provider (Inr (IllegalAndIrrelevant True ''off-topic''))
     (Inl RateLimit) (Inr (ControlBookingCriteria False ''cost shown''))"

section \<open>The turn, unfolded\<close>

lemma Runner_run_input_guardrail_agent:
  "Runner_run r illegal_and_irrelevant_input_guardrail inp ctx s =
     (case r inp ctx of
        Inl f \<Rightarrow> Inl (ProviderError f)
      | Inr outp \<Rightarrow> Inr (RunResult outp),
      s\<lparr>calls := calls s @ [ModelCall ''input guardrail agent'' inp ctx]\<rparr>)"
  by (simp add: Runner_run_def illegal_and_irrelevant_input_guardrail_def Let_def
        split: sum.splits)

lemma Runner_run_output_guardrail_agent:
  "Runner_run r control_booking_output_guardrail inp ctx s =
     (case r inp ctx of
        Inl f \<Rightarrow> Inl (ProviderError f)
      | Inr outp \<Rightarrow> Inr (RunResult outp),
      s\<lparr>calls := calls s @ [ModelCall ''output guardrail agent'' inp ctx]\<rparr>)"
  by (simp add: Runner_run_def control_booking_output_guardrail_def Let_def
        split: sum.splits)

lemma illegal_irrelevant_eq:
  "illegal_irrelevant p ctx inp s =
     (case input_guardrail_reply p inp ctx of
        Inl f \<Rightarrow> Inl (ProviderError f)
      | Inr v \<Rightarrow> Inr (GuardrailFunctionOutput v (is_request_irrelevant_illegal v)),
      s\<lparr>calls := calls s @ [ModelCall ''input guardrail agent'' inp ctx]\<rparr>)"
  by (simp add: illegal_irrelevant_def Runner_run_input_guardrail_agent split: sum.splits)

lemma check_booking_eq:
  "check_booking p ctx outp s =
     (case output_guardrail_reply p (response outp) ctx of
        Inl f \<Rightarrow> Inl (ProviderError f)
      | Inr v \<Rightarrow> Inr (GuardrailFunctionOutput v (is_response_violates v)),
      s\<lparr>calls := calls s @ [ModelCall ''output guardrail agent'' (response outp) ctx]\<rparr>)"
  by (simp add: check_booking_def Runner_run_output_guardrail_agent split: sum.splits)

text \<open>
  One turn with the runtime, the guardrail functions and the agent records unfolded: the
  seven ways it can end, with the calls it has logged by then.
\<close>

lemma run_travel_agent_unfold:
  "run_travel_agent p s =
     (case combine_conversation (messages s) [] of
        Inl e \<Rightarrow> (Inl e, s)
      | Inr conversation \<Rightarrow>
          (let c = py_strip conversation;
               pre = ModelCall ''input guardrail agent'' c user_info;
               main = ModelCall ''travel booking agent'' c user_info
           in case input_guardrail_reply p c user_info of
                Inl f \<Rightarrow> (Inl (ProviderError f), s\<lparr>calls := calls s @ [pre]\<rparr>)
              | Inr v \<Rightarrow>
                  if is_request_irrelevant_illegal v then
                    (Inr [(''status'', ''blocked_input''),
                          (''reason'', ''Illegal or irrelevant request.'')],
                     s\<lparr>calls := calls s @ [pre]\<rparr>)
                  else
                    (case travel_agent_reply p c user_info of
                       Inl f \<Rightarrow> (Inl (ProviderError f), s\<lparr>calls := calls s @ [pre, main]\<rparr>)
                     | Inr m \<Rightarrow>
                         (let post = ModelCall ''output guardrail agent'' (response m) user_info
                          in case output_guardrail_reply p (response m) user_info of
                               Inl f \<Rightarrow>
                                 (Inl (ProviderError f),
                                  s\<lparr>calls := calls s @ [pre, main, post]\<rparr>)
                             | Inr w \<Rightarrow>
                                 if is_response_violates w then
                                   (Inr [(''status'', ''blocked_output''),
                                         (''reason'',
                                          ''Blocked for safety (medical/legal advice or missing cost).'')],
                                    s\<lparr>calls := calls s @ [pre, main, post]\<rparr>)
                                 else
                                   (Inr [(''status'', ''success''), (''response'', response m)],
                                    s\<lparr>calls := calls s @ [pre, main, post]\<rparr>)))))"
  by (simp add: run_travel_agent_def Runner_run_def Travel_Booking_Assistant_Agent_def
        illegal_irrelevant_eq check_booking_eq Let_def split: sum.splits)

lemma run_travel_agent_returns:
  assumes "fst (run_travel_agent p s) = Inr d"
  shows "(\<exists>t. d = [(''status'', ''success''), (''response'', t)]) \<or>
         d = [(''status'', ''blocked_input''), (''reason'', ''Illegal or irrelevant request.'')] \<or>
         d = [(''status'', ''blocked_output''),
              (''reason'', ''Blocked for safety (medical/legal advice or missing cost).'')]"
proof (cases "combine_conversation (messages s) []")
  case (Inl e)
  with assms show ?thesis by (simp add: run_travel_agent_unfold)
next
  case conv: (Inr conversation)
  show ?thesis
  proof (cases "input_guardrail_reply p (py_strip conversation) user_info")
    case (Inl f)
    with assms conv show ?thesis by (simp add: run_travel_agent_unfold Let_def)
  next
    case pre: (Inr v)
    show ?thesis
    proof (cases "travel_agent_reply p (py_strip conversation) user_info")
      case (Inl f)
      with assms conv pre show ?thesis
        by (simp add: run_travel_agent_unfold Let_def split: if_splits)
    next
      case main: (Inr m)
      show ?thesis
      proof (cases "output_guardrail_reply p (response m) user_info")
        case (Inl f)
        with assms conv pre main show ?thesis
          by (simp add: run_travel_agent_unfold Let_def split: if_splits)
      next
        case (Inr w)
        with assms conv pre main show ?thesis
          by (simp add: run_travel_agent_unfold Let_def split: if_splits) blast
      qed
    qed
  qed
qed

lemma one_message_conversation:
  "combine_conversation (messages one_message) [] = Inr ''User: hi\<newline>''"
  by (simp add: one_message_def)

lemma strip_user_hi: "py_strip ''User: hi\<newline>'' = ''User: hi''"
  by (simp add: py_strip_def py_lstrip_def py_rstrip_def py_isspace_def)

lemma run_travel_agent_calls:
  assumes "combine_conversation (messages s) [] = Inr conversation"
  shows "\<exists>rest. snd (run_travel_agent p s) =
            s\<lparr>calls := calls s @
                 ModelCall ''input guardrail agent'' (py_strip conversation) user_info # rest\<rparr> \<and>
          (rest = [] \<or>
           (\<exists>more. rest =
              ModelCall ''travel booking agent'' (py_strip conversation) user_info # more \<and>
              (more = [] \<or> (\<exists>t. more = [ModelCall ''output guardrail agent'' t user_info]))))"
proof (cases "input_guardrail_reply p (py_strip conversation) user_info")
  case (Inl f)
  with assms show ?thesis
    by (intro exI [of _ "[]"]) (simp add: run_travel_agent_unfold Let_def)
next
  case pre: (Inr v)
  show ?thesis
  proof (cases "is_request_irrelevant_illegal v")
    case True
    with assms pre show ?thesis
      by (intro exI [of _ "[]"]) (simp add: run_travel_agent_unfold Let_def)
  next
    case pass: False
    show ?thesis
    proof (cases "travel_agent_reply p (py_strip conversation) user_info")
      case (Inl f)
      with assms pre pass show ?thesis
        by (intro exI [of _ "[ModelCall ''travel booking agent'' (py_strip conversation) user_info]"])
          (simp add: run_travel_agent_unfold Let_def)
    next
      case main: (Inr m)
      let ?rest = "[ModelCall ''travel booking agent'' (py_strip conversation) user_info,
                    ModelCall ''output guardrail agent'' (response m) user_info]"
      have "snd (run_travel_agent p s) =
          s\<lparr>calls := calls s @
               ModelCall ''input guardrail agent'' (py_strip conversation) user_info # ?rest\<rparr>"
        using assms pre pass main
        by (simp add: run_travel_agent_unfold Let_def split: sum.splits)
      then show ?thesis by (intro exI [of _ ?rest]) simp
    qed
  qed
qed

lemma run_travel_agent_frame:
  "\<exists>new. snd (run_travel_agent p s) = s\<lparr>calls := calls s @ new\<rparr> \<and>
         (\<forall>k\<in>set new. call_context k = user_info)"
proof (cases "combine_conversation (messages s) []")
  case (Inl e)
  then show ?thesis by (intro exI [of _ "[]"]) (simp add: run_travel_agent_unfold)
next
  case (Inr conversation)
  from run_travel_agent_calls [OF this, of p] obtain rest where
    state: "snd (run_travel_agent p s) =
      s\<lparr>calls := calls s @
           ModelCall ''input guardrail agent'' (py_strip conversation) user_info # rest\<rparr>"
    and rest: "rest = [] \<or>
      (\<exists>more. rest = ModelCall ''travel booking agent'' (py_strip conversation) user_info # more \<and>
         (more = [] \<or> (\<exists>t. more = [ModelCall ''output guardrail agent'' t user_info])))"
    by blast
  from rest have "\<forall>k\<in>set rest. call_context k = user_info" by auto
  with state show ?thesis
    by (intro exI [of _ "ModelCall ''input guardrail agent'' (py_strip conversation) user_info # rest"])
      simp
qed

lemma run_travel_agent_messages: "messages (snd (run_travel_agent p s)) = messages s"
  using run_travel_agent_frame [of p s] by auto

lemma on_submit_success:
  assumes "submit" "py_strip user_input \<noteq> []"
    and "run_travel_agent p
           (s\<lparr>messages := messages s @ [[(''role'', ''user''), (''content'', user_input)]]\<rparr>) =
         (Inr [(''status'', ''success''), (''response'', t)], s2)"
  shows "on_submit p submit user_input s =
           (Inr (), s2\<lparr>messages := messages s2 @ [[(''role'', ''agent''), (''content'', t)]]\<rparr>)"
  using assms by (simp add: on_submit_def Let_def)

lemma on_submit_blocked_input:
  assumes "submit" "py_strip user_input \<noteq> []"
    and "run_travel_agent p
           (s\<lparr>messages := messages s @ [[(''role'', ''user''), (''content'', user_input)]]\<rparr>) =
         (Inr [(''status'', ''blocked_input''), (''reason'', r)], s2)"
  shows "on_submit p submit user_input s =
           (Inr (), s2\<lparr>messages := messages s2 @
              [[(''role'', ''agent''), (''content'', ''Request Blocked: '' @ r)]]\<rparr>)"
  using assms by (simp add: on_submit_def Let_def)

lemma on_submit_blocked_output:
  assumes "submit" "py_strip user_input \<noteq> []"
    and "run_travel_agent p
           (s\<lparr>messages := messages s @ [[(''role'', ''user''), (''content'', user_input)]]\<rparr>) =
         (Inr [(''status'', ''blocked_output''), (''reason'', r)], s2)"
  shows "on_submit p submit user_input s =
           (Inr (), s2\<lparr>messages := messages s2 @
              [[(''role'', ''agent''), (''content'', ''Response Blocked: '' @ r)]]\<rparr>)"
  using assms by (simp add: on_submit_def Let_def)

lemma strip_hi_nonempty: "py_strip ''hi'' \<noteq> []"
  by (simp add: py_strip_def py_lstrip_def py_rstrip_def py_isspace_def)

lemma first_turn_conversation:
  "combine_conversation [[(''role'', ''user''), (''content'', ''hi'')]] [] = Inr ''User: hi\<newline>''"
  by simp

text \<open>The turn under the parallel scheduling, when the input guardrail sets its flag.\<close>

lemma run_travel_agent_with_Runner_run: "run_travel_agent_with Runner_run p s = run_travel_agent p s"
  by (simp add: run_travel_agent_with_def run_travel_agent_def)

lemma input_tripwire_parallel:
  assumes "input_guardrail_reply p c user_info = Inr v" and "is_request_irrelevant_illegal v"
  shows "Runner_run_parallel sched (travel_agent_reply p) (Travel_Booking_Assistant_Agent p)
           c user_info s =
         (case travel_agent_reply p c user_info of
            Inl f \<Rightarrow>
              Inl (if agent_failure_first sched then ProviderError f
                   else InputGuardrailTripwireTriggered)
          | Inr _ \<Rightarrow> Inl InputGuardrailTripwireTriggered,
          s\<lparr>calls := calls s @
               (if agent_request_first sched
                then [ModelCall ''travel booking agent'' c user_info,
                      ModelCall ''input guardrail agent'' c user_info]
                else [ModelCall ''input guardrail agent'' c user_info,
                      ModelCall ''travel booking agent'' c user_info])\<rparr>)"
  using assms
  by (simp add: Runner_run_parallel_def Travel_Booking_Assistant_Agent_def illegal_irrelevant_eq
        Let_def split: sum.splits)

section \<open>Stripping and joining\<close>

lemma combine_conversation_turns:
  "combine_conversation (map turn_dict ts) acc =
     Inr (acc @ concat (map (\<lambda>t. turn_line t @ [CHR 0x0A]) ts))"
  by (induction ts arbitrary: acc) (simp_all add: turn_dict_def turn_line_def)

lemma concat_lines_join:
  "ls \<noteq> [] \<Longrightarrow> concat (map (\<lambda>l. l @ [CHR 0x0A]) ls) = join_lines ls @ [CHR 0x0A]"
  by (induction ls rule: join_lines.induct) simp_all

lemma py_isspace_newline: "py_isspace (CHR 0x0A)"
  by (simp add: py_isspace_def)

lemma py_strip_snoc_space: "py_isspace c \<Longrightarrow> py_strip (s @ [c]) = py_strip s"
  by (simp add: py_strip_def py_rstrip_def)

lemma py_strip_id:
  assumes "s \<noteq> []" "\<not> py_isspace (hd s)" "\<not> py_isspace (last s)"
  shows "py_strip s = s"
proof -
  from assms(1,3) have "dropWhile py_isspace (rev s) = rev s"
    by (cases "rev s") (simp_all add: last_rev hd_rev)
  then have "py_rstrip s = s" by (simp add: py_rstrip_def)
  moreover from assms(1,2) have "dropWhile py_isspace s = s" by (cases s) simp_all
  ultimately show ?thesis by (simp add: py_strip_def py_lstrip_def)
qed

lemma py_strip_all_space:
  assumes "\<forall>c\<in>set s. py_isspace c"
  shows "py_strip s = []"
proof -
  from assms have "\<forall>c\<in>set (rev s). py_isspace c" by simp
  then have r: "dropWhile py_isspace (rev s) = []" by (simp only: dropWhile_eq_Nil_conv)
  show ?thesis unfolding py_strip_def py_lstrip_def py_rstrip_def r by simp
qed

lemma hd_join_lines: "ls \<noteq> [] \<Longrightarrow> hd ls \<noteq> [] \<Longrightarrow> hd (join_lines ls) = hd (hd ls)"
  by (induction ls rule: join_lines.induct) simp_all

lemma join_lines_Nil_iff: "join_lines ls = [] \<longleftrightarrow> ls = [] \<or> ls = [[]]"
  by (induction ls rule: join_lines.induct) simp_all

lemma last_join_lines: "ls \<noteq> [] \<Longrightarrow> last ls \<noteq> [] \<Longrightarrow> last (join_lines ls) = last (last ls)"
  by (induction ls rule: join_lines.induct) (auto simp: join_lines_Nil_iff)

lemma turn_line_hd: "\<not> py_isspace (hd (turn_line t))" "turn_line t \<noteq> []"
  by (simp_all add: turn_line_def py_isspace_def)

lemma turn_line_last: "snd t \<noteq> [] \<Longrightarrow> last (turn_line t) = last (snd t)"
  by (simp add: turn_line_def)

lemma strip_join_id:
  assumes "ts \<noteq> []" "snd (last ts) \<noteq> []" "\<not> py_isspace (last (snd (last ts)))"
  shows "py_strip (join_lines (map turn_line ts)) = join_lines (map turn_line ts)"
proof (rule py_strip_id)
  let ?ls = "map turn_line ts"
  from assms(1) have ne: "?ls \<noteq> []" by simp
  have hdne: "hd ?ls \<noteq> []" using assms(1) by (simp add: hd_map turn_line_hd)
  show "join_lines ?ls \<noteq> []" using ne hdne by (auto simp: join_lines_Nil_iff)
  show "\<not> py_isspace (hd (join_lines ?ls))"
    using ne hdne assms(1) by (simp add: hd_join_lines hd_map turn_line_hd)
  have "last ?ls = turn_line (last ts)" using assms(1) by (simp add: last_map)
  then show "\<not> py_isspace (last (join_lines ?ls))"
    using ne assms by (simp add: last_join_lines turn_line_last turn_line_hd)
qed

lemma strip_conversation:
  assumes "combine_conversation (map turn_dict ts) [] = Inr conv"
  shows "py_strip conv = py_strip (join_lines (map turn_line ts))"
proof (cases "ts = []")
  case True
  with assms show ?thesis by auto
next
  case False
  from assms have "conv = concat (map (\<lambda>l. l @ [CHR 0x0A]) (map turn_line ts))"
    by (simp add: combine_conversation_turns comp_def)
  with False have "conv = join_lines (map turn_line ts) @ [CHR 0x0A]"
    using concat_lines_join [of "map turn_line ts"] by simp
  then show ?thesis by (simp add: py_strip_snoc_space py_isspace_newline)
qed

lemma abc_is_turns:
  "messages abc_transcript = map turn_dict [(''user'', ''a''), (''agent'', ''b''), (''user'', ''c'')]"
  by (simp add: abc_transcript_def turn_dict_def)

section \<open>Outcomes of a turn\<close>

text \<open>
  Claim C1. Whenever \<open>run_travel_agent\<close> returns normally, for any transcript and any
  behaviour of the remote model, the dictionary it returns has exactly one of the three
  shapes: status \<open>success\<close> with a \<open>response\<close>, status \<open>blocked_input\<close> with a \<open>reason\<close>, or
  status \<open>blocked_output\<close> with a \<open>reason\<close>; never two of them at once.
\<close>

theorem exactly_one_outcome:
  assumes "fst (run_travel_agent p s) = Inr d"
  shows "(is_Success d \<and> \<not> is_BlockedInput d \<and> \<not> is_BlockedOutput d) \<or>
         (\<not> is_Success d \<and> is_BlockedInput d \<and> \<not> is_BlockedOutput d) \<or>
         (\<not> is_Success d \<and> \<not> is_BlockedInput d \<and> is_BlockedOutput d)"
proof -
  consider t where "d = [(''status'', ''success''), (''response'', t)]"
    | "d = [(''status'', ''blocked_input''), (''reason'', ''Illegal or irrelevant request.'')]"
    | "d = [(''status'', ''blocked_output''),
            (''reason'', ''Blocked for safety (medical/legal advice or missing cost).'')]"
    using run_travel_agent_returns [OF assms] by blast
  then show ?thesis
    by cases (simp_all add: is_Success_def is_BlockedInput_def is_BlockedOutput_def)
qed

theorem exactly_one_outcome_witness:
  "fst (run_travel_agent mock_pass one_message) =
     Inr [(''status'', ''success''), (''response'', tokyo_seoul)] \<and>
   is_Success [(''status'', ''success''), (''response'', tokyo_seoul)] \<and>
   \<not> is_BlockedInput [(''status'', ''success''), (''response'', tokyo_seoul)] \<and>
   \<not> is_BlockedOutput [(''status'', ''success''), (''response'', tokyo_seoul)]"
proof -
  have run: "fst (run_travel_agent mock_pass one_message) =
      Inr [(''status'', ''success''), (''response'', tokyo_seoul)]"
    by (simp add: run_travel_agent_unfold one_message_conversation mock_pass_def
          mock_provider_def Let_def)
  have "is_Success [(''status'', ''success''), (''response'', tokyo_seoul)]"
    by (simp add: is_Success_def)
  with exactly_one_outcome [OF run] run show ?thesis by blast
qed

text \<open>
  Claim C2, amended. When the input guardrail's verdict on the prompt has its flag set,
  the output guardrail agent is never called and no reply of the travel booking agent is
  returned. The travel booking agent's request is sent all the same, alongside the input
  guardrail's: the calls of the turn are exactly these two. The turn ends as
  \<open>blocked_input\<close>, except when the travel booking agent's request fails and its failure
  is the first to surface: then the turn raises that failure. The transcript is left as
  it was.
\<close>

theorem pre_gate_blocks_in_parallel:
  assumes "combine_conversation (messages s) [] = Inr conversation"
    and "input_guardrail_reply p (py_strip conversation) user_info = Inr v"
    and "is_request_irrelevant_illegal v"
    and "run_travel_agent_with (Runner_run_parallel sched) p s = (r, s')"
  shows "(\<exists>new. calls s' = calls s @ new \<and>
            set new = {ModelCall ''input guardrail agent'' (py_strip conversation) user_info,
                       ModelCall ''travel booking agent'' (py_strip conversation) user_info}) \<and>
         messages s' = messages s \<and>
         (\<forall>f. travel_agent_reply p (py_strip conversation) user_info = Inl f \<and>
              agent_failure_first sched \<longrightarrow>
              r = Inl (ProviderError f)) \<and>
         ((\<exists>m. travel_agent_reply p (py_strip conversation) user_info = Inr m) \<or>
          \<not> agent_failure_first sched \<longrightarrow>
            r = Inr [(''status'', ''blocked_input''),
                     (''reason'', ''Illegal or irrelevant request.'')])"
proof -
  let ?c = "py_strip conversation"
  let ?new = "if agent_request_first sched
              then [ModelCall ''travel booking agent'' ?c user_info,
                    ModelCall ''input guardrail agent'' ?c user_info]
              else [ModelCall ''input guardrail agent'' ?c user_info,
                    ModelCall ''travel booking agent'' ?c user_info]"
  note run = input_tripwire_parallel [OF assms(2,3), of sched s]
  have state: "s' = s\<lparr>calls := calls s @ ?new\<rparr>"
    using assms(1,4) run
    by (cases "travel_agent_reply p ?c user_info")
      (auto simp: run_travel_agent_with_def split: if_splits)
  have calls: "\<exists>new. calls s' = calls s @ new \<and>
      set new = {ModelCall ''input guardrail agent'' ?c user_info,
                 ModelCall ''travel booking agent'' ?c user_info}"
    unfolding state by (intro exI [of _ ?new]) auto
  have raised: "r = Inl (ProviderError f)"
    if "travel_agent_reply p ?c user_info = Inl f" "agent_failure_first sched" for f
    using assms(1,4) run that by (simp add: run_travel_agent_with_def)
  have blocked: "r = Inr [(''status'', ''blocked_input''),
      (''reason'', ''Illegal or irrelevant request.'')]"
    if "(\<exists>m. travel_agent_reply p ?c user_info = Inr m) \<or> \<not> agent_failure_first sched"
    using assms(1,4) run that
    by (cases "travel_agent_reply p ?c user_info") (auto simp: run_travel_agent_with_def)
  from calls state raised blocked show ?thesis by simp
qed

theorem pre_gate_blocks_in_parallel_witness:
  "fst (run_travel_agent_with (Runner_run_parallel guardrail_first) mock_block_input one_message) =
     Inr [(''status'', ''blocked_input''), (''reason'', ''Illegal or irrelevant request.'')] \<and>
   messages (snd (run_travel_agent_with (Runner_run_parallel guardrail_first) mock_block_input
       one_message)) = messages one_message \<and>
   fst (run_travel_agent_with (Runner_run_parallel agent_first) mock_block_input_rate_limited
       one_message) = Inl (ProviderError RateLimit)"
proof -
  have pre: "input_guardrail_reply mock_block_input (py_strip ''User: hi\<newline>'') user_info =
      Inr (IllegalAndIrrelevant True ''off-topic'')"
    and main: "travel_agent_reply mock_block_input (py_strip ''User: hi\<newline>'') user_info =
      Inr (MessageOutput tokyo_seoul)"
    by (simp_all add: mock_block_input_def mock_provider_def)
  have pre': "input_guardrail_reply mock_block_input_rate_limited
      (py_strip ''User: hi\<newline>'') user_info = Inr (IllegalAndIrrelevant True ''off-topic'')"
    and main': "travel_agent_reply mock_block_input_rate_limited
      (py_strip ''User: hi\<newline>'') user_info = Inl RateLimit"
    by (simp_all add: mock_block_input_rate_limited_def mock_provider_def)
  have first: "agent_failure_first agent_first" by (simp add: agent_first_def)
  obtain r s' where run:
    "run_travel_agent_with (Runner_run_parallel guardrail_first) mock_block_input one_message =
       (r, s')"
    by (cases "run_travel_agent_with (Runner_run_parallel guardrail_first) mock_block_input
        one_message")
  obtain r' s'' where run':
    "run_travel_agent_with (Runner_run_parallel agent_first) mock_block_input_rate_limited
       one_message = (r', s'')"
    by (cases "run_travel_agent_with (Runner_run_parallel agent_first)
        mock_block_input_rate_limited one_message")
  from pre_gate_blocks_in_parallel [OF one_message_conversation pre _ run] main run
  have "r = Inr [(''status'', ''blocked_input''), (''reason'', ''Illegal or irrelevant request.'')]"
    and "messages s' = messages one_message"
    by simp_all
  moreover from pre_gate_blocks_in_parallel [OF one_message_conversation pre' _ run'] main' first
  have "r' = Inl (ProviderError RateLimit)" by simp
  ultimately show ?thesis using run run' by simp
qed

text \<open>
  The claim as first stated fails on both counts. With the flag set by the input
  guardrail, the call to the travel booking agent is in the log of the turn; and when
  that call is refused and its failure surfaces first, the turn raises it and there is no
  \<open>blocked_input\<close> outcome.
\<close>

theorem pre_gate_short_circuit_counterexample:
  "input_guardrail_reply mock_block_input ''User: hi'' user_info =
     Inr (IllegalAndIrrelevant True ''off-topic'') \<and>
   ModelCall ''travel booking agent'' ''User: hi'' user_info \<in>
     set (calls (snd (run_travel_agent_with (Runner_run_parallel guardrail_first)
       mock_block_input one_message))) \<and>
   input_guardrail_reply mock_block_input_rate_limited ''User: hi'' user_info =
     Inr (IllegalAndIrrelevant True ''off-topic'') \<and>
   fst (run_travel_agent_with (Runner_run_parallel agent_first) mock_block_input_rate_limited
       one_message) = Inl (ProviderError RateLimit)"
proof -
  have a: "input_guardrail_reply mock_block_input ''User: hi'' user_info =
      Inr (IllegalAndIrrelevant True ''off-topic'')"
    by (simp add: mock_block_input_def mock_provider_def)
  have b: "input_guardrail_reply mock_block_input_rate_limited ''User: hi'' user_info =
      Inr (IllegalAndIrrelevant True ''off-topic'')"
    by (simp add: mock_block_input_rate_limited_def mock_provider_def)
  have flag: "is_request_irrelevant_illegal (IllegalAndIrrelevant True ''off-topic'')" by simp
  have "travel_agent_reply mock_block_input ''User: hi'' user_info = Inr (MessageOutput tokyo_seoul)"
    by (simp add: mock_block_input_def mock_provider_def)
  with input_tripwire_parallel [OF a flag, of guardrail_first one_message]
  have c: "ModelCall ''travel booking agent'' ''User: hi'' user_info \<in>
     set (calls (snd (run_travel_agent_with (Runner_run_parallel guardrail_first)
       mock_block_input one_message)))"
    by (simp add: run_travel_agent_with_def one_message_conversation strip_user_hi
          guardrail_first_def)
  have "travel_agent_reply mock_block_input_rate_limited ''User: hi'' user_info = Inl RateLimit"
    by (simp add: mock_block_input_rate_limited_def mock_provider_def)
  with input_tripwire_parallel [OF b flag, of agent_first one_message]
  have d: "fst (run_travel_agent_with (Runner_run_parallel agent_first)
      mock_block_input_rate_limited one_message) = Inl (ProviderError RateLimit)"
    by (simp add: run_travel_agent_with_def one_message_conversation strip_user_hi
          agent_first_def)
  from a b c d show ?thesis by simp
qed

text \<open>
  Claim C3. When the input guardrail lets the prompt pass, the travel booking agent
  answers with a text \<open>T\<close> and the output guardrail flags \<open>T\<close>, the turn ends as
  \<open>blocked_output\<close>. The dictionary returned is a constant in which \<open>T\<close> does not occur:
  it is the same for every \<open>T\<close>, so the reply is discarded; and the transcript is left as
  it was.
\<close>

theorem post_gate_suppression:
  assumes "combine_conversation (messages s) [] = Inr conversation"
    and "input_guardrail_reply p (py_strip conversation) user_info = Inr v"
    and "\<not> is_request_irrelevant_illegal v"
    and "travel_agent_reply p (py_strip conversation) user_info = Inr (MessageOutput T)"
    and "output_guardrail_reply p T user_info = Inr w"
    and "is_response_violates w"
  shows "fst (run_travel_agent p s) =
           Inr [(''status'', ''blocked_output''),
                (''reason'', ''Blocked for safety (medical/legal advice or missing cost).'')] \<and>
         messages (snd (run_travel_agent p s)) = messages s"
  using assms by (simp add: run_travel_agent_unfold Let_def)

theorem post_gate_suppression_witness:
  "fst (run_travel_agent mock_block_output one_message) =
     Inr [(''status'', ''blocked_output''),
          (''reason'', ''Blocked for safety (medical/legal advice or missing cost).'')] \<and>
   messages (snd (run_travel_agent mock_block_output one_message)) = messages one_message \<and>
   travel_agent_reply mock_block_output ''User: hi'' user_info = Inr (MessageOutput ''Booked.'')"
proof -
  have pre: "input_guardrail_reply mock_block_output (py_strip ''User: hi\<newline>'') user_info =
      Inr (IllegalAndIrrelevant False ''travel request'')"
    and main: "travel_agent_reply mock_block_output (py_strip ''User: hi\<newline>'') user_info =
      Inr (MessageOutput ''Booked.'')"
    and post: "output_guardrail_reply mock_block_output ''Booked.'' user_info =
      Inr (ControlBookingCriteria True ''no cost'')"
    by (simp_all add: mock_block_output_def mock_provider_def)
  from post_gate_suppression [OF one_message_conversation pre _ main post]
  show ?thesis by (simp add: mock_block_output_def mock_provider_def)
qed

text \<open>
  Claim C4. When neither guardrail sets its flag, the turn ends as \<open>success\<close> and the
  \<open>response\<close> entry is exactly the text the travel booking agent answered.
\<close>

theorem happy_path:
  assumes "combine_conversation (messages s) [] = Inr conversation"
    and "input_guardrail_reply p (py_strip conversation) user_info = Inr v"
    and "\<not> is_request_irrelevant_illegal v"
    and "travel_agent_reply p (py_strip conversation) user_info = Inr (MessageOutput T)"
    and "output_guardrail_reply p T user_info = Inr w"
    and "\<not> is_response_violates w"
  shows "fst (run_travel_agent p s) = Inr [(''status'', ''success''), (''response'', T)]"
  using assms by (simp add: run_travel_agent_unfold Let_def)

theorem happy_path_witness:
  "fst (run_travel_agent mock_pass one_message) =
     Inr [(''status'', ''success''), (''response'', ''Flights from Tokyo to Seoul start at $120.'')]"
proof -
  have pre: "input_guardrail_reply mock_pass (py_strip ''User: hi\<newline>'') user_info =
      Inr (IllegalAndIrrelevant False ''travel request'')"
    and main: "travel_agent_reply mock_pass (py_strip ''User: hi\<newline>'') user_info =
      Inr (MessageOutput ''Flights from Tokyo to Seoul start at $120.'')"
    and post: "output_guardrail_reply mock_pass ''Flights from Tokyo to Seoul start at $120.'' user_info =
      Inr (ControlBookingCriteria False ''cost shown'')"
    by (simp_all add: mock_pass_def mock_provider_def tokyo_seoul_def)
  from happy_path [OF one_message_conversation pre _ main post]
  show ?thesis by simp
qed



section \<open>The prompt\<close>

text \<open>
  Claim C5, amended. For a transcript of well-formed turns the prompt is the lines
  \<open>User: content\<close> or \<open>Agent: content\<close>, one per turn in order, joined by newlines,
  with all leading and trailing whitespace stripped, not only the final newline. It is
  the input of the call to the input guardrail agent, which every such turn makes first,
  and of the call to the travel booking agent when there is one. When the transcript is
  empty, or its last content is not empty and does not end in whitespace, stripping
  changes nothing and the prompt is the joined lines themselves.
\<close>

theorem prompt_serialization:
  assumes "messages s = map turn_dict ts"
  shows "(\<exists>rest. calls (snd (run_travel_agent p s)) =
            calls s @ ModelCall ''input guardrail agent''
                        (py_strip (join_lines (map turn_line ts))) user_info # rest \<and>
            (\<forall>k\<in>set rest. call_agent k = ''travel booking agent'' \<longrightarrow>
                 call_input k = py_strip (join_lines (map turn_line ts)))) \<and>
         (ts = [] \<or> snd (last ts) \<noteq> [] \<and> \<not> py_isspace (last (snd (last ts))) \<longrightarrow>
            py_strip (join_lines (map turn_line ts)) = join_lines (map turn_line ts))"
proof (intro conjI impI)
  obtain conv where conv: "combine_conversation (messages s) [] = Inr conv"
    using assms by (simp add: combine_conversation_turns)
  then have strip: "py_strip conv = py_strip (join_lines (map turn_line ts))"
    using assms strip_conversation by simp
  from run_travel_agent_calls [OF conv, of p] strip
  show "\<exists>rest. calls (snd (run_travel_agent p s)) =
            calls s @ ModelCall ''input guardrail agent''
                        (py_strip (join_lines (map turn_line ts))) user_info # rest \<and>
            (\<forall>k\<in>set rest. call_agent k = ''travel booking agent'' \<longrightarrow>
                 call_input k = py_strip (join_lines (map turn_line ts)))"
    by auto
next
  assume "ts = [] \<or> snd (last ts) \<noteq> [] \<and> \<not> py_isspace (last (snd (last ts)))"
  then show "py_strip (join_lines (map turn_line ts)) = join_lines (map turn_line ts)"
  proof
    assume "ts = []"
    then show ?thesis by (simp add: py_strip_def py_lstrip_def py_rstrip_def)
  next
    assume *: "snd (last ts) \<noteq> [] \<and> \<not> py_isspace (last (snd (last ts)))"
    show ?thesis
    proof (cases "ts = []")
      case True
      then show ?thesis by (simp add: py_strip_def py_lstrip_def py_rstrip_def)
    next
      case False
      with * show ?thesis by (simp add: strip_join_id)
    qed
  qed
qed

theorem prompt_serialization_witness:
  "\<exists>rest. calls (snd (run_travel_agent mock_pass abc_transcript)) =
     ModelCall ''input guardrail agent'' ''User: a\<newline>Agent: b\<newline>User: c'' user_info # rest"
proof -
  have "py_isspace (last (snd (last [(''user'', ''a''), (''agent'', ''b''), (''user'', ''c'')]))) = False"
    by (simp add: py_isspace_def)
  moreover have "join_lines (map turn_line [(''user'', ''a''), (''agent'', ''b''), (''user'', ''c'')]) =
      ''User: a\<newline>Agent: b\<newline>User: c''"
    by (simp add: turn_line_def)
  moreover have "calls abc_transcript = []" by (simp add: abc_transcript_def)
  ultimately show ?thesis
    using prompt_serialization [OF abc_is_turns, of mock_pass] by auto
qed

text \<open>
  The claim as first stated, with only the final newline trimmed, fails for a message that
  ends in a space: the prompt is \<open>User: a\<close>, the joined lines are \<open>User: a\<close> followed by
  a space.
\<close>

theorem prompt_trailing_space_counterexample:
  "messages trailing_space = map turn_dict [(''user'', ''a '')] \<and>
   call_input (hd (calls (snd (run_travel_agent mock_pass trailing_space)))) = ''User: a'' \<and>
   join_lines (map turn_line [(''user'', ''a '')]) = ''User: a '' \<and>
   call_input (hd (calls (snd (run_travel_agent mock_pass trailing_space)))) \<noteq>
     join_lines (map turn_line [(''user'', ''a '')])"
proof -
  have "combine_conversation (messages trailing_space) [] = Inr ''User: a \<newline>''"
    by (simp add: trailing_space_def)
  moreover have "py_strip ''User: a \<newline>'' = ''User: a''"
    by (simp add: py_strip_def py_lstrip_def py_rstrip_def py_isspace_def)
  ultimately have
    "call_input (hd (calls (snd (run_travel_agent mock_pass trailing_space)))) = ''User: a''"
    by (simp add: run_travel_agent_unfold Let_def mock_pass_def mock_provider_def
          trailing_space_def)
  moreover have "messages trailing_space = map turn_dict [(''user'', ''a '')]"
    by (simp add: trailing_space_def turn_dict_def)
  ultimately show ?thesis by (simp add: turn_line_def)
qed

section \<open>Block messages\<close>

text \<open>
  Claim C6, amended. For every turn blocked by a guardrail, the \<open>reason\<close> entry of the
  returned dictionary is a fixed sentence that depends only on which guardrail blocked:
  \<open>Illegal or irrelevant request.\<close> for the input guardrail, \<open>Blocked for safety
  (medical/legal advice or missing cost).\<close> for the output guardrail. The reasoning
  strings the guardrails produced (\<open>pre_why\<close>, \<open>post_why\<close>) do not reach it. The chat
  page shows that fixed sentence after \<open>Request Blocked: \<close> or \<open>Response Blocked: \<close>.
\<close>

theorem block_reason_is_fixed:
  assumes "submit" and "py_strip user_input \<noteq> []"
    and "s1 = s\<lparr>messages := messages s @ [[(''role'', ''user''), (''content'', user_input)]]\<rparr>"
    and "combine_conversation (messages s1) [] = Inr conversation"
    and "input_guardrail_reply p (py_strip conversation) user_info =
           Inr (IllegalAndIrrelevant pre_flag pre_why)"
    and "pre_flag \<or>
         travel_agent_reply p (py_strip conversation) user_info = Inr m \<and>
         output_guardrail_reply p (response m) user_info =
           Inr (ControlBookingCriteria True post_why)"
  shows "fst (run_travel_agent p s1) =
           Inr [(''status'', if pre_flag then ''blocked_input'' else ''blocked_output''),
                (''reason'',
                 if pre_flag then ''Illegal or irrelevant request.''
                 else ''Blocked for safety (medical/legal advice or missing cost).'')] \<and>
         last (messages (snd (on_submit p submit user_input s))) =
           [(''role'', ''agent''),
            (''content'',
             if pre_flag then ''Request Blocked: Illegal or irrelevant request.''
             else ''Response Blocked: Blocked for safety (medical/legal advice or missing cost).'')]"
proof (cases pre_flag)
  case True
  with assms(4,5) have run: "run_travel_agent p s1 =
      (Inr [(''status'', ''blocked_input''), (''reason'', ''Illegal or irrelevant request.'')],
       s1\<lparr>calls := calls s1 @
            [ModelCall ''input guardrail agent'' (py_strip conversation) user_info]\<rparr>)"
    by (simp add: run_travel_agent_unfold Let_def)
  from on_submit_blocked_input [OF assms(1,2) run [unfolded assms(3)]] run True
  show ?thesis by simp
next
  case False
  with assms(4,5,6) have run: "run_travel_agent p s1 =
      (Inr [(''status'', ''blocked_output''),
            (''reason'', ''Blocked for safety (medical/legal advice or missing cost).'')],
       s1\<lparr>calls := calls s1 @
            [ModelCall ''input guardrail agent'' (py_strip conversation) user_info,
             ModelCall ''travel booking agent'' (py_strip conversation) user_info,
             ModelCall ''output guardrail agent'' (response m) user_info]\<rparr>)"
    by (simp add: run_travel_agent_unfold Let_def)
  from on_submit_blocked_output [OF assms(1,2) run [unfolded assms(3)]] run False
  show ?thesis by simp
qed

theorem block_reason_is_fixed_witness:
  "fst (run_travel_agent mock_block_input one_message) =
     Inr [(''status'', ''blocked_input''), (''reason'', ''Illegal or irrelevant request.'')] \<and>
   last (messages (snd (on_submit mock_block_input True ''hi'' empty_session))) =
     [(''role'', ''agent''), (''content'', ''Request Blocked: Illegal or irrelevant request.'')]"
proof -
  have s1: "one_message = empty_session\<lparr>messages := messages empty_session @
      [[(''role'', ''user''), (''content'', ''hi'')]]\<rparr>"
    by (simp add: one_message_def empty_session_def)
  have pre: "input_guardrail_reply mock_block_input (py_strip ''User: hi\<newline>'') user_info =
      Inr (IllegalAndIrrelevant True ''off-topic'')"
    by (simp add: mock_block_input_def mock_provider_def)
  from block_reason_is_fixed [OF TrueI strip_hi_nonempty s1 one_message_conversation pre]
  show ?thesis by simp
qed

text \<open>
  The claim as first stated fails: the input guardrail's reasoning is \<open>off-topic\<close>, and
  the \<open>reason\<close> returned is not that string.
\<close>

theorem block_reason_counterexample:
  "input_guardrail_reply mock_block_input ''User: hi'' user_info =
     Inr (IllegalAndIrrelevant True ''off-topic'') \<and>
   fst (run_travel_agent mock_block_input one_message) =
     Inr [(''status'', ''blocked_input''), (''reason'', ''Illegal or irrelevant request.'')] \<and>
   map_of [(''status'', ''blocked_input''), (''reason'', ''Illegal or irrelevant request.'')]
     ''reason'' \<noteq> Some ''off-topic''"
  by (simp add: run_travel_agent_unfold one_message_conversation Let_def mock_block_input_def
        mock_provider_def)

section \<open>The transcript\<close>

text \<open>
  Claim C8. A submitted message that passes the handler's guard (it is not empty after
  stripping) and whose turn ends with one of the three outcomes makes the transcript grow
  by exactly two entries at its end, in this order: the user turn with the text as typed,
  then one agent turn, whose content is the response, or the block message. The turns
  that were there before are all kept, unchanged.
\<close>

theorem transcript_growth:
  assumes "submit" and "py_strip user_input \<noteq> []"
    and "fst (run_travel_agent p
           (s\<lparr>messages := messages s @ [[(''role'', ''user''), (''content'', user_input)]]\<rparr>)) =
         Inr d"
  shows "\<exists>content.
           fst (on_submit p submit user_input s) = Inr () \<and>
           messages (snd (on_submit p submit user_input s)) =
             messages s @ [[(''role'', ''user''), (''content'', user_input)],
                           [(''role'', ''agent''), (''content'', content)]] \<and>
           (d = [(''status'', ''success''), (''response'', content)] \<or>
            is_BlockedInput d \<and>
              content = ''Request Blocked: Illegal or irrelevant request.'' \<or>
            is_BlockedOutput d \<and>
              content =
                ''Response Blocked: Blocked for safety (medical/legal advice or missing cost).'')"
proof -
  let ?s1 = "s\<lparr>messages := messages s @ [[(''role'', ''user''), (''content'', user_input)]]\<rparr>"
  obtain s2 where run: "run_travel_agent p ?s1 = (Inr d, s2)"
    using assms(3) by (cases "run_travel_agent p ?s1") simp
  have msgs: "messages s2 = messages ?s1"
    using run_travel_agent_messages [of p ?s1] run by simp
  consider t where "d = [(''status'', ''success''), (''response'', t)]"
    | "d = [(''status'', ''blocked_input''), (''reason'', ''Illegal or irrelevant request.'')]"
    | "d = [(''status'', ''blocked_output''),
            (''reason'', ''Blocked for safety (medical/legal advice or missing cost).'')]"
    using run_travel_agent_returns [OF assms(3)] by blast
  then show ?thesis
  proof cases
    case 1
    with on_submit_success [OF assms(1,2), of p s t s2] run msgs show ?thesis by simp
  next
    case 2
    with on_submit_blocked_input [OF assms(1,2), of p s _ s2] run msgs show ?thesis
      by (simp add: is_BlockedInput_def)
  next
    case 3
    with on_submit_blocked_output [OF assms(1,2), of p s _ s2] run msgs show ?thesis
      by (simp add: is_BlockedOutput_def)
  qed
qed

theorem transcript_growth_witness:
  "fst (on_submit mock_block_input True ''hi'' empty_session) = Inr () \<and>
   messages (snd (on_submit mock_block_input True ''hi'' empty_session)) =
     [[(''role'', ''user''), (''content'', ''hi'')],
      [(''role'', ''agent''), (''content'', ''Request Blocked: Illegal or irrelevant request.'')]]"
proof -
  let ?d = "[(''status'', ''blocked_input''), (''reason'', ''Illegal or irrelevant request.'')]"
  have run: "fst (run_travel_agent mock_block_input
      (empty_session\<lparr>messages := messages empty_session @
         [[(''role'', ''user''), (''content'', ''hi'')]]\<rparr>)) = Inr ?d"
    by (simp add: run_travel_agent_unfold empty_session_def first_turn_conversation Let_def
          mock_block_input_def mock_provider_def)
  have "?d \<noteq> [(''status'', ''success''), (''response'', c)]" for c by simp
  moreover have "\<not> is_BlockedOutput ?d" by (simp add: is_BlockedOutput_def)
  ultimately show ?thesis
    using transcript_growth [OF TrueI strip_hi_nonempty run] by (auto simp: empty_session_def)
qed

text \<open>
  Claim C9. One call of \<open>run_travel_agent\<close>, from any state and so at any turn of a
  session, leaves the chat history it was given as it was, and every call to the remote
  model it makes receives the same user profile, with the fields \<open>run_travel_agent\<close>
  constructed it with.
\<close>

theorem pipeline_reads_only:
  "messages (snd (run_travel_agent p s)) = messages s \<and>
   (\<exists>new. calls (snd (run_travel_agent p s)) = calls s @ new \<and>
          (\<forall>k\<in>set new. call_context k = user_info))"
  using run_travel_agent_frame [of p s] by auto

theorem pipeline_reads_only_witness:
  "messages (snd (run_travel_agent mock_pass one_message)) =
     [[(''role'', ''user''), (''content'', ''hi'')]] \<and>
   (\<exists>new. calls (snd (run_travel_agent mock_pass one_message)) = new \<and> length new = 3 \<and>
          (\<forall>k\<in>set new. call_context k = user_info))"
proof -
  have "length (calls (snd (run_travel_agent mock_pass one_message))) = 3"
    by (simp add: run_travel_agent_unfold one_message_conversation Let_def mock_pass_def
          mock_provider_def one_message_def)
  moreover have "calls one_message = []" "messages one_message = [[(''role'', ''user''), (''content'', ''hi'')]]"
    by (simp_all add: one_message_def)
  ultimately show ?thesis
    using pipeline_reads_only [of mock_pass one_message] by auto
qed

text \<open>
  Claim C10. A submitted text that is empty or holds only whitespace does nothing: the
  turn is not run (no call is logged) and the transcript is unchanged.
\<close>

theorem blank_submit_ignored:
  assumes "\<forall>c\<in>set user_input. py_isspace c"
  shows "on_submit p submit user_input s = (Inr (), s)"
  using py_strip_all_space [OF assms] by (simp add: on_submit_def)

theorem blank_submit_ignored_witness:
  "on_submit mock_pass True blank_input one_message = (Inr (), one_message)"
proof -
  have "\<forall>c\<in>set blank_input. py_isspace c"
    by (simp add: blank_input_def py_isspace_def)
  then show ?thesis by (rule blank_submit_ignored)
qed

end
